theory Spec2Isabelle
  imports Main
begin

section \<open>Avatar processing service: a shallow embedding of template.py\<close>

text \<open>
  The service keeps a dictionary of jobs, creates one job per submission, asks an
  external moderation endpoint about it and records the verdict in the job.
  Everything the Python reads from outside the program (the random UUID, the
  string hash of the process, the clock, the answer of the HTTP library) is an
  explicit input of the model, collected in the record \<open>env\<close>. Exceptions are
  values of the type \<open>py_exception\<close> (the subclasses of \<open>Exception\<close>, which
  is what \<open>except Exception\<close> catches); a call that may raise returns a sum with
  \<open>Inl\<close> for the exception. Job objects live in an explicit object store, because
  the dictionary and the caller hold references to the same mutable object.
\<close>

subsection \<open>Python values\<close>

text \<open>
  A Python float is identified by its \<open>repr\<close> text (which round-trips), since the
  program only ever formats the clock reading into a string.
\<close>

datatype pyfloat = Float string

definition str_float :: "pyfloat \<Rightarrow> string" where
  "str_float f = (case f of Float s \<Rightarrow> s)"

text \<open>
  The values \<open>response.json()\<close> can return. A dictionary is the list of its items;
  the keys of a decoded JSON object are strings.
\<close>

datatype pyval =
    PyNone
  | PyBool bool
  | PyInt int
  | PyFloat pyfloat
  | PyStr string
  | PyList "pyval list"
  | PyDict "(string \<times> pyval) list"

text \<open>Truth value testing, as \<open>if response.is_approved:\<close> performs it.\<close>

fun truthy :: "pyval \<Rightarrow> bool" where
  "truthy PyNone = False"
| "truthy (PyBool b) = b"
| "truthy (PyInt n) = (n \<noteq> 0)"
| "truthy (PyFloat f) = (f \<noteq> Float ''0.0'' \<and> f \<noteq> Float ''-0.0'')"
| "truthy (PyStr s) = (s \<noteq> [])"
| "truthy (PyList xs) = (xs \<noteq> [])"
| "truthy (PyDict kvs) = (kvs \<noteq> [])"

text \<open>Decimal rendering of integers, as an f-string formats them.\<close>

definition digit_char :: "nat \<Rightarrow> char" where
  "digit_char d = char_of (48 + d)"

fun str_nat :: "nat \<Rightarrow> string" where
  "str_nat n = (if n < 10 then [digit_char n] else str_nat (n div 10) @ [digit_char (n mod 10)])"

declare str_nat.simps [simp del]

definition str_int :: "int \<Rightarrow> string" where
  "str_int i = (if i < 0 then CHR ''-'' # str_nat (nat (- i)) else str_nat (nat i))"

subsection \<open>Exceptions\<close>

text \<open>
  \<open>LibraryError cls text\<close> is an exception raised inside the \<open>requests\<close> library
  (connection failures, timeouts, an undecodable body): \<open>cls\<close> is its class name and
  \<open>text\<close> what \<open>str\<close> gives for it. \<open>HTTPError\<close> is raised by \<open>raise_for_status\<close>,
  \<open>KeyError\<close> and \<open>TypeError\<close> by subscripting the decoded body.
\<close>

datatype py_exception =
    LibraryError string string
  | HTTPError string
  | KeyError string
  | TypeError string

definition quote :: char where
  "quote = CHR 0x27"

text \<open>
  \<open>str(e)\<close>. For a \<open>KeyError\<close> it is the \<open>repr\<close> of the key; the only keys the
  program looks up are the literals \<open>approved\<close> and \<open>reason\<close>, whose \<open>repr\<close> is the
  key between single quotes.
\<close>

fun str_exc :: "py_exception \<Rightarrow> string" where
  "str_exc (LibraryError cls text) = text"
| "str_exc (HTTPError text) = text"
| "str_exc (KeyError k) = quote # k @ [quote]"
| "str_exc (TypeError text) = text"

text \<open>\<open>body[k]\<close> for a string key \<open>k\<close>: only a dictionary that has the key answers.\<close>

definition not_subscriptable :: "string \<Rightarrow> py_exception" where
  "not_subscriptable tname = TypeError (quote # tname @ quote # '' object is not subscriptable'')"

fun getitem :: "pyval \<Rightarrow> string \<Rightarrow> py_exception + pyval" where
  "getitem (PyDict kvs) k = (case map_of kvs k of None \<Rightarrow> Inl (KeyError k) | Some v \<Rightarrow> Inr v)"
| "getitem (PyList xs) k = Inl (TypeError ''list indices must be integers or slices, not str'')"
| "getitem (PyStr s) k = Inl (TypeError (''string indices must be integers, not '' @ quote # ''str'' @ [quote]))"
| "getitem PyNone k = Inl (not_subscriptable ''NoneType'')"
| "getitem (PyBool b) k = Inl (not_subscriptable ''bool'')"
| "getitem (PyInt n) k = Inl (not_subscriptable ''int'')"
| "getitem (PyFloat f) k = Inl (not_subscriptable ''float'')"

subsection \<open>Identifiers\<close>

text \<open>
  A \<open>uuid.UUID\<close> object is its 128-bit integer. \<open>str\<close> of it is the 32-digit
  hexadecimal rendering, grouped 8-4-4-4-12.
\<close>

datatype uuid = UUID nat

definition hex_char :: "nat \<Rightarrow> char" where
  "hex_char d = (if d < 10 then char_of (48 + d) else char_of (87 + d))"

fun hex_digits :: "nat \<Rightarrow> nat \<Rightarrow> string" where
  "hex_digits 0 n = []"
| "hex_digits (Suc k) n = hex_digits k (n div 16) @ [hex_char (n mod 16)]"

definition str_uuid :: "uuid \<Rightarrow> string" where
  "str_uuid u = (case u of UUID n \<Rightarrow>
     (let h = hex_digits 32 n
      in take 8 h @ ''-'' @ take 4 (drop 8 h) @ ''-'' @ take 4 (drop 12 h) @ ''-''
         @ take 4 (drop 16 h) @ ''-'' @ drop 20 h))"

text \<open>
  The objects used as job identifiers and dictionary keys: the signatures declare
  \<open>str\<close>, \<open>submit_job\<close> stores a \<open>UUID\<close> object. Python compares a \<open>UUID\<close> equal
  only to a \<open>UUID\<close> with the same integer, and a string only to the same string, which
  is the equality of this datatype.
\<close>

datatype pykey = KUuid uuid | KStr string

fun str_key :: "pykey \<Rightarrow> string" where
  "str_key (KUuid u) = str_uuid u"
| "str_key (KStr s) = s"

subsection \<open>Data classes\<close>

datatype datetime = Datetime int

record ModerationResponse =
  is_approved :: pyval
  reason :: pyval

record AvatarJob =
  id_job :: pykey
  user_id :: string
  status :: string
  input_data :: string
  output_url :: "string option"
  created_at :: datetime
  error_message :: pyval

subsection \<open>The HTTP library and the rest of the environment\<close>

text \<open>
  The arguments of \<open>requests.post\<close>. \<open>timeout\<close> is \<open>None\<close> when the keyword is not
  passed, which makes the library wait without limit.
\<close>

record http_request =
  url :: string
  headers :: "(string \<times> string) list"
  data :: "(string \<times> string) list"
  timeout :: "nat option"

text \<open>
  What the program reads of a response: the status line, the URL, and what
  \<open>.json()\<close> gives (the decoded body, or the class and text of the exception).
\<close>

record http_response =
  status_code :: int
  http_reason :: string
  response_url :: string
  json :: "(string \<times> string) + pyval"

datatype http_outcome = Raises string string | Responds http_response

record env =
  uuid4 :: uuid
  py_hash :: "string \<Rightarrow> int"
  time_time :: pyfloat
  datetime_now :: datetime
  post :: "http_request \<Rightarrow> http_outcome"

text \<open>
  \<open>Response.raise_for_status\<close> of the library: an \<open>HTTPError\<close> for a status from 400
  to 599, nothing otherwise.
\<close>

definition raise_for_status :: "http_response \<Rightarrow> py_exception option" where
  "raise_for_status r =
     (if 400 \<le> status_code r \<and> status_code r < 500
      then Some (HTTPError (str_int (status_code r) @ '' Client Error: '' @ http_reason r
                            @ '' for url: '' @ response_url r))
      else if 500 \<le> status_code r \<and> status_code r < 600
      then Some (HTTPError (str_int (status_code r) @ '' Server Error: '' @ http_reason r
                            @ '' for url: '' @ response_url r))
      else None)"

subsection \<open>The service\<close>

type_synonym addr = nat

record AvatarProcessingService =
  moderation_api_url :: string
  api_token :: string
  jobs :: "pykey \<rightharpoonup> addr"

text \<open>
  The object store holds every \<open>AvatarJob\<close> ever created, at the address that is
  its index; \<open>jobs\<close> maps keys to addresses. A world is the store and the service.
\<close>

record world =
  objects :: "AvatarJob list"
  service :: AvatarProcessingService

definition init :: "string \<Rightarrow> string \<Rightarrow> world" where
  "init api_url token =
     \<lparr>objects = [],
      service = \<lparr>moderation_api_url = api_url, api_token = token, jobs = Map.empty\<rparr>\<rparr>"

definition moderation_request :: "AvatarProcessingService \<Rightarrow> string \<Rightarrow> string \<Rightarrow> http_request" where
  "moderation_request self content uid =
     \<lparr>url = moderation_api_url self,
      headers = [(''Authorization'', ''Bearer '' @ api_token self)],
      data = [(''content'', content), (''user_id'', uid)],
      timeout = None\<rparr>"

definition call_moderation_api ::
  "AvatarProcessingService \<Rightarrow> env \<Rightarrow> string \<Rightarrow> string \<Rightarrow> py_exception + ModerationResponse" where
  "call_moderation_api self e content uid =
     (case post e (moderation_request self content uid) of
        Raises cls text \<Rightarrow> Inl (LibraryError cls text)
      | Responds response \<Rightarrow>
          (case raise_for_status response of
             Some err \<Rightarrow> Inl err
           | None \<Rightarrow>
               (case json response of
                  Inl (cls, text) \<Rightarrow> Inl (LibraryError cls text)
                | Inr body \<Rightarrow>
                    (case getitem body ''approved'' of
                       Inl err \<Rightarrow> Inl err
                     | Inr a \<Rightarrow>
                         (case getitem body ''reason'' of
                            Inl err \<Rightarrow> Inl err
                          | Inr r \<Rightarrow> Inr \<lparr>is_approved = a, reason = r\<rparr>)))))"

definition generate_mock_avatar_url :: "env \<Rightarrow> string \<Rightarrow> string" where
  "generate_mock_avatar_url e prompt =
     ''https://avatars.example.com/'' @ str_int (py_hash e prompt) @ ''_''
       @ str_float (time_time e) @ ''.png''"

text \<open>Assignment to the attributes \<open>status\<close> and \<open>error_message\<close> of the object at an address.\<close>

definition set_outcome :: "addr \<Rightarrow> string \<Rightarrow> pyval \<Rightarrow> world \<Rightarrow> world" where
  "set_outcome a s m w =
     w\<lparr>objects := (objects w)[a := (objects w ! a)\<lparr>status := s, error_message := m\<rparr>]\<rparr>"

text \<open>
  \<open>submit_job\<close> returns the reference to the job and the world after the call. The
  job is created and stored under its id first, then updated in place.
\<close>

definition submit_job :: "env \<Rightarrow> world \<Rightarrow> string \<Rightarrow> string \<Rightarrow> addr \<times> world" where
  "submit_job e w uid prompt =
     (let job = \<lparr>id_job = KUuid (uuid4 e), user_id = uid, status = ''pending'',
                 input_data = prompt,
                 output_url = Some (generate_mock_avatar_url e prompt),
                 created_at = datetime_now e, error_message = PyNone\<rparr>;
          a = length (objects w);
          w1 = w\<lparr>objects := objects w @ [job],
                 service := (service w)\<lparr>jobs := (jobs (service w))(id_job job \<mapsto> a)\<rparr>\<rparr>;
          w2 = (case call_moderation_api (service w1) e prompt uid of
                  Inr response \<Rightarrow>
                    (if truthy (is_approved response)
                     then set_outcome a ''completed'' PyNone w1
                     else set_outcome a ''rejected'' (reason response) w1)
                | Inl err \<Rightarrow> set_outcome a ''failed'' (PyStr (str_exc err)) w1)
      in (a, w2))"

definition get_job_status :: "world \<Rightarrow> pykey \<Rightarrow> addr option" where
  "get_job_status w job_id =
     (if jobs (service w) job_id \<noteq> None then Some (the (jobs (service w) job_id)) else None)"

text \<open>The object a reference points to.\<close>

definition deref :: "world \<Rightarrow> addr \<Rightarrow> AvatarJob" where
  "deref w a = objects w ! a"

text \<open>The worlds a service can be in: freshly constructed, or after a submission.\<close>

inductive reachable :: "world \<Rightarrow> bool" where
  reachable_init: "reachable (init api_url token)"
| reachable_submit: "reachable w \<Longrightarrow> reachable (snd (submit_job e w uid prompt))"


text \<open>The job object that \<open>submit_job\<close> returns, read in the world after the call.\<close>

definition returned_job :: "env \<Rightarrow> world \<Rightarrow> string \<Rightarrow> string \<Rightarrow> AvatarJob" where
  "returned_job e w uid prompt =
     deref (snd (submit_job e w uid prompt)) (fst (submit_job e w uid prompt))"

text \<open>
  The store invariant: every key of \<open>jobs\<close> is a UUID object and refers to a stored
  job that carries this key as its id.
\<close>

definition store_ok :: "world \<Rightarrow> bool" where
  "store_ok w = (\<forall>k a. jobs (service w) k = Some a \<longrightarrow>
       a < length (objects w) \<and> id_job (objects w ! a) = k \<and> (\<exists>u. k = KUuid u))"

subsection \<open>Sample inputs\<close>

text \<open>
  The service of \<open>main()\<close>, and environments in which every moderation request gets
  the same outcome and the clock, read at any submission, shows the same time.
\<close>

definition demo_world :: world where
  "demo_world = init ''https://api.example.com'' ''your-api-token-here''"

definition sample_env :: "uuid \<Rightarrow> http_outcome \<Rightarrow> env" where
  "sample_env u out =
     \<lparr>uuid4 = u, py_hash = (\<lambda>s. int (length s)), time_time = Float ''1762257600.25'',
      datetime_now = Datetime 1762257600250000, post = (\<lambda>r. out)\<rparr>"

definition ok_response :: "pyval \<Rightarrow> http_outcome" where
  "ok_response body =
     Responds \<lparr>status_code = 200, http_reason = ''OK'',
               response_url = ''https://api.example.com/'', json = Inr body\<rparr>"


definition safe_verdict :: http_outcome where
  "safe_verdict = ok_response (PyDict [(''approved'', PyBool True),
                                       (''reason'', PyStr ''Content appears safe'')])"

definition unsafe_verdict :: http_outcome where
  "unsafe_verdict = ok_response (PyDict [(''approved'', PyBool False),
                                         (''reason'', PyStr ''unsafe'')])"

definition silent_verdict :: http_outcome where
  "silent_verdict = ok_response (PyDict [(''approved'', PyBool False), (''reason'', PyNone)])"




text \<open>Two submissions in a row with the same user and prompt, with different UUIDs.\<close>

definition first_submission :: "addr \<times> world" where
  "first_submission =
     submit_job (sample_env (UUID 1) safe_verdict) demo_world
       ''user123'' ''A friendly robot avatar with blue eyes''"

definition second_submission :: "addr \<times> world" where
  "second_submission =
     submit_job (sample_env (UUID 2) safe_verdict) (snd first_submission)
       ''user123'' ''A friendly robot avatar with blue eyes''"

section \<open>Auxiliary facts\<close>

lemma call_moderation_api_jobs [simp]:
  "call_moderation_api (self\<lparr>jobs := j\<rparr>) e content uid = call_moderation_api self e content uid"
  by (simp add: call_moderation_api_def moderation_request_def)

lemma fst_submit_job [simp]: "fst (submit_job e w uid prompt) = length (objects w)"
  by (simp add: submit_job_def Let_def)

lemma returned_job_eq:
  "returned_job e w uid prompt =
     (let job = \<lparr>id_job = KUuid (uuid4 e), user_id = uid, status = ''pending'',
                 input_data = prompt,
                 output_url = Some (generate_mock_avatar_url e prompt),
                 created_at = datetime_now e, error_message = PyNone\<rparr>
      in case call_moderation_api (service w) e prompt uid of
           Inr response \<Rightarrow>
             (if truthy (is_approved response)
              then job\<lparr>status := ''completed'', error_message := PyNone\<rparr>
              else job\<lparr>status := ''rejected'', error_message := reason response\<rparr>)
         | Inl err \<Rightarrow> job\<lparr>status := ''failed'', error_message := PyStr (str_exc err)\<rparr>)"
  by (simp add: returned_job_def deref_def submit_job_def set_outcome_def Let_def
      split: sum.splits)

lemma snd_submit_job:
  "snd (submit_job e w uid prompt) =
     \<lparr>objects = objects w @ [returned_job e w uid prompt],
      service = (service w)\<lparr>jobs := (jobs (service w))(KUuid (uuid4 e) \<mapsto> length (objects w))\<rparr>\<rparr>"
  by (simp add: returned_job_eq submit_job_def Let_def set_outcome_def split: sum.splits)

lemma id_returned_job [simp]: "id_job (returned_job e w uid prompt) = KUuid (uuid4 e)"
  by (simp add: returned_job_eq Let_def split: sum.splits)

lemma output_url_returned_job [simp]:
  "output_url (returned_job e w uid prompt) = Some (generate_mock_avatar_url e prompt)"
  by (simp add: returned_job_eq Let_def split: sum.splits)

subsection \<open>The moderation call, step by step\<close>











subsection \<open>The moderation call on the sample inputs\<close>



lemma call_ok_response:
  "call_moderation_api self (sample_env u (ok_response (PyDict kvs))) content uid
   = (case map_of kvs ''approved'' of None \<Rightarrow> Inl (KeyError ''approved'')
      | Some a \<Rightarrow> (case map_of kvs ''reason'' of None \<Rightarrow> Inl (KeyError ''reason'')
          | Some r \<Rightarrow> Inr \<lparr>is_approved = a, reason = r\<rparr>))"
  by (simp add: call_moderation_api_def sample_env_def ok_response_def raise_for_status_def
      split: option.splits)

subsection \<open>The store invariant holds in every reachable world\<close>

lemma store_ok_init: "store_ok (init api_url token)"
  by (simp add: store_ok_def init_def)

lemma store_ok_submit:
  assumes "store_ok w"
  shows "store_ok (snd (submit_job e w uid prompt))"
  unfolding store_ok_def
proof (intro allI impI)
  fix k a
  assume h: "jobs (service (snd (submit_job e w uid prompt))) k = Some a"
  show "a < length (objects (snd (submit_job e w uid prompt)))
        \<and> id_job (objects (snd (submit_job e w uid prompt)) ! a) = k \<and> (\<exists>u. k = KUuid u)"
  proof (cases "k = KUuid (uuid4 e)")
    case True
    with h have "a = length (objects w)" by (simp add: snd_submit_job)
    with True show ?thesis by (simp add: snd_submit_job)
  next
    case False
    with h have "jobs (service w) k = Some a" by (simp add: snd_submit_job)
    with assms have "a < length (objects w) \<and> id_job (objects w ! a) = k \<and> (\<exists>u. k = KUuid u)"
      by (simp add: store_ok_def)
    then show ?thesis by (simp add: snd_submit_job nth_append)
  qed
qed

lemma reachable_store_ok: "reachable w \<Longrightarrow> store_ok w"
  by (induction rule: reachable.induct) (simp_all add: store_ok_init store_ok_submit)

section \<open>Properties\<close>

subsection \<open>Outcome of a submission\<close>




text \<open>
  C2. When the moderation call returns a result whose \<open>is_approved\<close> is \<open>True\<close>, the
  returned job has status \<open>completed\<close> and \<open>error_message\<close> \<open>None\<close>.
\<close>

theorem submit_job_approved:
  assumes "call_moderation_api (service w) e prompt uid = Inr r"
    and "is_approved r = PyBool True"
  shows "status (returned_job e w uid prompt) = ''completed''
       \<and> error_message (returned_job e w uid prompt) = PyNone"
  using assms by (simp add: returned_job_eq Let_def)

theorem submit_job_approved_witness:
  "call_moderation_api (service demo_world) (sample_env (UUID 42) safe_verdict)
     ''A friendly robot avatar with blue eyes'' ''user123''
   = Inr \<lparr>is_approved = PyBool True, reason = PyStr ''Content appears safe''\<rparr>
   \<and> status (returned_job (sample_env (UUID 42) safe_verdict) demo_world
         ''user123'' ''A friendly robot avatar with blue eyes'') = ''completed''
   \<and> error_message (returned_job (sample_env (UUID 42) safe_verdict) demo_world
         ''user123'' ''A friendly robot avatar with blue eyes'') = PyNone"
proof -
  have c: "call_moderation_api (service demo_world) (sample_env (UUID 42) safe_verdict)
             ''A friendly robot avatar with blue eyes'' ''user123''
           = Inr \<lparr>is_approved = PyBool True, reason = PyStr ''Content appears safe''\<rparr>"
    by (simp add: call_ok_response safe_verdict_def)
  from submit_job_approved [OF c] c show ?thesis by simp
qed

text \<open>
  C3. When the moderation call returns a result whose \<open>is_approved\<close> is \<open>False\<close> and
  whose \<open>reason\<close> is a string, the returned job has status \<open>rejected\<close> and that string
  as its \<open>error_message\<close>.
\<close>

theorem submit_job_rejected:
  assumes "call_moderation_api (service w) e prompt uid = Inr r"
    and "is_approved r = PyBool False" and "reason r = PyStr s"
  shows "status (returned_job e w uid prompt) = ''rejected''
       \<and> error_message (returned_job e w uid prompt) = PyStr s"
  using assms by (simp add: returned_job_eq Let_def)

theorem submit_job_rejected_witness:
  "call_moderation_api (service demo_world) (sample_env (UUID 42) unsafe_verdict)
     ''A friendly robot avatar with blue eyes'' ''user123''
   = Inr \<lparr>is_approved = PyBool False, reason = PyStr ''unsafe''\<rparr>
   \<and> status (returned_job (sample_env (UUID 42) unsafe_verdict) demo_world
         ''user123'' ''A friendly robot avatar with blue eyes'') = ''rejected''
   \<and> error_message (returned_job (sample_env (UUID 42) unsafe_verdict) demo_world
         ''user123'' ''A friendly robot avatar with blue eyes'') = PyStr ''unsafe''"
proof -
  have c: "call_moderation_api (service demo_world) (sample_env (UUID 42) unsafe_verdict)
             ''A friendly robot avatar with blue eyes'' ''user123''
           = Inr \<lparr>is_approved = PyBool False, reason = PyStr ''unsafe''\<rparr>"
    by (simp add: call_ok_response unsafe_verdict_def)
  from submit_job_rejected [OF c, of "''unsafe''"] c show ?thesis by simp
qed

text \<open>
  C4, as the code has it. The returned job is in exactly one of the three terminal
  statuses. Its \<open>error_message\<close> is \<open>None\<close> when the status is \<open>completed\<close>, the
  reason of the moderation result when the status is \<open>rejected\<close> (and that reason may
  be \<open>None\<close>), and the text of the exception, a string, when the status is \<open>failed\<close>.
\<close>

theorem submit_job_terminal:
  "(status (returned_job e w uid prompt) = ''completed''
      \<and> error_message (returned_job e w uid prompt) = PyNone)
   \<or> (status (returned_job e w uid prompt) = ''rejected''
      \<and> (\<exists>r. call_moderation_api (service w) e prompt uid = Inr r
             \<and> error_message (returned_job e w uid prompt) = reason r))
   \<or> (status (returned_job e w uid prompt) = ''failed''
      \<and> (\<exists>err. call_moderation_api (service w) e prompt uid = Inl err
             \<and> error_message (returned_job e w uid prompt) = PyStr (str_exc err)))"
  by (cases "call_moderation_api (service w) e prompt uid")
    (simp_all add: returned_job_eq Let_def)

text \<open>
  C4 as stated asks for a non-null \<open>error_message\<close> exactly when the status is
  \<open>rejected\<close> or \<open>failed\<close>. A moderation answer \<open>{"approved": false, "reason": null}\<close>
  gives a rejected job whose \<open>error_message\<close> is \<open>None\<close>.
\<close>

theorem rejected_without_reason_counterexample:
  "status (returned_job (sample_env (UUID 42) silent_verdict) demo_world
      ''user123'' ''A friendly robot avatar with blue eyes'') = ''rejected''
   \<and> error_message (returned_job (sample_env (UUID 42) silent_verdict) demo_world
      ''user123'' ''A friendly robot avatar with blue eyes'') = PyNone
   \<and> \<not> ((error_message (returned_job (sample_env (UUID 42) silent_verdict) demo_world
            ''user123'' ''A friendly robot avatar with blue eyes'') \<noteq> PyNone)
        = (status (returned_job (sample_env (UUID 42) silent_verdict) demo_world
            ''user123'' ''A friendly robot avatar with blue eyes'')
           \<in> {''rejected'', ''failed''}))"
  by (simp add: returned_job_eq Let_def call_ok_response silent_verdict_def)

subsection \<open>The moderation call\<close>

text \<open>
  C5. The claim asks for a bounded timeout on every outbound call. The request that
  \<open>call_moderation_api\<close> hands to \<open>requests.post\<close> carries the URL, the headers and
  the form data only: its timeout is \<open>None\<close>, for every service, content and user.
\<close>

theorem request_has_no_timeout:
  "timeout (moderation_request self content uid) = None"
  by (simp add: moderation_request_def)




subsection \<open>The job store\<close>

text \<open>
  C7. For every id that is not a key of the job store, \<open>get_job_status\<close> returns
  \<open>None\<close>; it is a total function of the model with no error branch, so it raises
  nothing (ids are strings or UUID objects, both hashable).
\<close>

theorem get_job_status_unknown:
  "job_id \<notin> dom (jobs (service w)) \<Longrightarrow> get_job_status w job_id = None"
  by (simp add: get_job_status_def domIff)

theorem get_job_status_unknown_witness:
  "KStr ''nope'' \<notin> dom (jobs (service (init ''https://api.example.com'' ''tok'')))
   \<and> get_job_status (init ''https://api.example.com'' ''tok'') (KStr ''nope'') = None"
  using get_job_status_unknown [of "KStr ''nope''" "init ''https://api.example.com'' ''tok''"]
  by (simp add: init_def)

text \<open>
  C8. The claim asks for distinct ids and distinct output URLs for two submissions
  with the same user and prompt. The URL is built from the hash of the prompt and the
  clock reading alone: two such submissions that read the same time from the clock
  get different ids (their UUIDs differ) and different job objects, but the same
  \<open>output_url\<close>.
\<close>

theorem same_clock_same_url:
  "fst first_submission \<noteq> fst second_submission
   \<and> id_job (deref (snd second_submission) (fst first_submission))
       \<noteq> id_job (deref (snd second_submission) (fst second_submission))
   \<and> input_data (deref (snd second_submission) (fst first_submission))
       = input_data (deref (snd second_submission) (fst second_submission))
   \<and> user_id (deref (snd second_submission) (fst first_submission))
       = user_id (deref (snd second_submission) (fst second_submission))
   \<and> output_url (deref (snd second_submission) (fst first_submission))
       = output_url (deref (snd second_submission) (fst second_submission))"
  by (simp add: first_submission_def second_submission_def snd_submit_job deref_def
      demo_world_def init_def generate_mock_avatar_url_def sample_env_def
      returned_job_eq Let_def call_ok_response [unfolded sample_env_def] safe_verdict_def)


text \<open>
  C10. In every world the service can reach, a job stored under a key has that key as
  its id, and the key is a UUID object, not a string. Looking the job up with the key
  itself finds it; looking it up with the string rendering of its id returns \<open>None\<close>.
\<close>

theorem string_id_not_found:
  assumes "reachable w" and "jobs (service w) k = Some a"
  shows "id_job (deref w a) = k \<and> (\<exists>u. k = KUuid u)
       \<and> get_job_status w k = Some a
       \<and> get_job_status w (KStr (str_key (id_job (deref w a)))) = None"
proof -
  from assms(1) have ok: "store_ok w" by (rule reachable_store_ok)
  have none: "jobs (service w) (KStr s) = None" for s
  proof (cases "jobs (service w) (KStr s)")
    case None
    then show ?thesis .
  next
    case (Some b)
    with ok have "\<exists>u. KStr s = KUuid u" unfolding store_ok_def by blast
    then show ?thesis by simp
  qed
  from ok assms(2) have "id_job (objects w ! a) = k \<and> (\<exists>u. k = KUuid u)"
    unfolding store_ok_def by blast
  moreover have "get_job_status w k = Some a"
    using assms(2) by (simp add: get_job_status_def)
  moreover have "get_job_status w (KStr (str_key (id_job (deref w a)))) = None"
    using none by (simp add: get_job_status_def)
  ultimately show ?thesis by (simp add: deref_def)
qed

theorem string_id_not_found_witness:
  "reachable (snd first_submission)
   \<and> jobs (service (snd first_submission)) (KUuid (UUID 1)) = Some 0
   \<and> id_job (deref (snd first_submission) 0) = KUuid (UUID 1)
   \<and> get_job_status (snd first_submission) (KUuid (UUID 1)) = Some 0
   \<and> get_job_status (snd first_submission)
        (KStr (str_key (id_job (deref (snd first_submission) 0)))) = None"
proof -
  have r: "reachable (snd first_submission)"
    unfolding first_submission_def demo_world_def
    by (rule reachable_submit [OF reachable_init])
  have j: "jobs (service (snd first_submission)) (KUuid (UUID 1)) = Some 0"
    by (simp add: first_submission_def snd_submit_job demo_world_def init_def sample_env_def)
  from string_id_not_found [OF r j] r j show ?thesis by blast
qed

end
